theory Spec2Isabelle
  imports Complex_Main "HOL-Library.Char_ord" "HOL-Library.List_Lexorder" "HOL-Library.Sublist"
begin

section \<open>Data model (src/types.ts)\<close>

text \<open>
  The interfaces of \<^verbatim>\<open>types.ts\<close> as records; an optional property \<^verbatim>\<open>p?: T\<close> is a field
  of type \<open>T option\<close>. A JavaScript string is a \<open>string\<close>, one \<open>char\<close> per code unit,
  so \<^verbatim>\<open>s.length\<close> is \<open>length s\<close>. Numbers are integers (\<open>int\<close>): ratings, limits,
  offsets and counts are whole numbers in every request the handlers are written for.
  The fields \<^verbatim>\<open>id\<close>, \<^verbatim>\<open>text\<close> and \<^verbatim>\<open>notes\<close> are \<open>id'\<close>, \<open>text'\<close> and \<open>notes'\<close>.
\<close>

datatype Status = New | Flagged | Responded | Resolved

record DeviceMetadata =
  device :: string
  os :: string
  osVersion :: string

record ReplyData =
  replyId :: string
  replyText :: string
  replyDate :: string
  lastEditDate :: "string option"

record InternalMetadata =
  status :: Status
  tags :: "string list"
  assignedTo :: "string option"
  notes' :: "string option"

record Review =
  id' :: string
  appPackage :: string
  userName :: string
  userImage :: "string option"
  rating :: int
  title :: "string option"
  text' :: string
  date :: string
  lastUpdateDate :: string
  language :: string
  country :: string
  appVersion :: string
  deviceMetadata :: DeviceMetadata
  replyData :: "ReplyData option"
  internalMetadata :: "InternalMetadata option"

record ReviewFilter =
  appPackage :: "string option"
  minRating :: "int option"
  maxRating :: "int option"
  startDate :: "string option"
  endDate :: "string option"
  languages :: "string list option"
  countries :: "string list option"
  appVersions :: "string list option"
  minAppVersion :: "string option"
  deviceTypes :: "string list option"
  osVersions :: "string list option"
  minOsVersion :: "string option"
  hasReply :: "bool option"
  hasFreshReply :: "bool option"
  status :: "Status list option"
  tags :: "string list option"
  assignedTo :: "string list option"
  limit :: "int option"
  offset :: "int option"

record Developer =
  name :: string
  website :: "string option"
  email :: "string option"

record AppMetadata =
  packageName :: string
  title :: string
  icon :: "string option"
  latestVersion :: "string option"
  description :: "string option"
  category :: "string option"
  developer :: "Developer option"
  updatedAt :: "string option"

record Pagination =
  total :: int
  limit :: int
  offset :: int
  hasMore :: bool

record ReviewsResponse =
  reviews :: "Review list"
  pagination :: Pagination

record ReplyResponse =
  success :: bool
  replyId :: string
  timestamp :: string

text \<open>The filter object \<^verbatim>\<open>{}\<close>: no property is present.\<close>

definition emptyFilter :: ReviewFilter where
  "emptyFilter =
     \<lparr>ReviewFilter.appPackage = None, minRating = None, maxRating = None,
      startDate = None, endDate = None, languages = None, countries = None,
      appVersions = None, minAppVersion = None, deviceTypes = None, osVersions = None,
      minOsVersion = None, hasReply = None, hasFreshReply = None,
      ReviewFilter.status = None, ReviewFilter.tags = None, ReviewFilter.assignedTo = None,
      ReviewFilter.limit = None, ReviewFilter.offset = None\<rparr>"

section \<open>Errors\<close>

text \<open>
  \<^verbatim>\<open>ErrorCode\<close> holds the codes of the protocol SDK that \<^verbatim>\<open>index.ts\<close> throws in a
  \<^verbatim>\<open>McpError\<close>. \<open>InvalidArgument\<close> is the failure the repository signals for a reply
  text it refuses; a handler does not catch it, so it reaches the caller as it is.
\<close>

datatype ErrorCode = InvalidRequest | MethodNotFound | InvalidParams | InternalError

datatype error = McpError ErrorCode | InvalidArgument

text \<open>The errors of the class "invalid argument": a request parameter is malformed.\<close>

fun invalidArgumentClass :: "error \<Rightarrow> bool" where
  "invalidArgumentClass (McpError InvalidParams) = True"
| "invalidArgumentClass InvalidArgument = True"
| "invalidArgumentClass _ = False"

section \<open>JavaScript operations the handlers use\<close>

text \<open>\<^verbatim>\<open>x || d\<close> on an optional number: \<^verbatim>\<open>undefined\<close> and \<^verbatim>\<open>0\<close> are falsy.\<close>

fun orElse :: "int option \<Rightarrow> int \<Rightarrow> int" where
  "orElse None d = d"
| "orElse (Some x) d = (if x = 0 then d else x)"

text \<open>
  \<^verbatim>\<open>Array.prototype.slice(start, end)\<close>: a negative index counts from the end of the
  array, both indices are clamped to the array, and the result is empty when the start
  is not before the end.
\<close>

definition relativeIndex :: "int \<Rightarrow> int \<Rightarrow> int" where
  "relativeIndex len i = (if i < 0 then max (len + i) 0 else min i len)"

definition slice :: "'a list \<Rightarrow> int \<Rightarrow> int \<Rightarrow> 'a list" where
  "slice xs start end' =
     (let len = int (length xs);
          k = relativeIndex len start;
          final = relativeIndex len end'
      in take (nat (final - k)) (drop (nat k) xs))"

text \<open>
  \<^verbatim>\<open>String.prototype.toLowerCase\<close> on the code units that a \<open>char\<close> holds (0 to 255):
  the letters A to Z (65 to 90) and the capital letters of Latin-1 (192 to 222, but for
  the multiplication sign 215) move up by 32; every other code unit stays.
\<close>

definition toLowerChar :: "char \<Rightarrow> char" where
  "toLowerChar c =
     (let n = (of_char c :: nat)
      in if (65 \<le> n \<and> n \<le> 90) \<or> (192 \<le> n \<and> n \<le> 222 \<and> n \<noteq> 215)
         then char_of (n + 32) else c)"

definition toLowerCase :: "string \<Rightarrow> string" where
  "toLowerCase s = map toLowerChar s"

text \<open>\<^verbatim>\<open>s.includes(q)\<close>: \<open>q\<close> occurs in \<open>s\<close> at some position.\<close>

fun includes' :: "string \<Rightarrow> string \<Rightarrow> bool" where
  "includes' [] q = (q = [])"
| "includes' (c # s) q = (prefix q (c # s) \<or> includes' s q)"

section \<open>The repositories\<close>

text \<open>
  \<^verbatim>\<open>index.ts\<close> imports \<^verbatim>\<open>ReviewsRepository\<close> and \<^verbatim>\<open>AppsRepository\<close> from
  \<^verbatim>\<open>./repositories/\<close>, and its handlers call \<^verbatim>\<open>find\<close>, \<^verbatim>\<open>countReviews\<close>, \<^verbatim>\<open>findById\<close>
  and \<^verbatim>\<open>addReply\<close> of the former. The text of the two classes is not in \<^verbatim>\<open>index.ts\<close> or
  \<^verbatim>\<open>types.ts\<close>; their operations are modelled here from the specification (its sections
  4.1 to 4.4).
\<close>

text \<open>Modelled from the spec: the state the two repositories hold, the Review records
  and the App records (section 4.1, Review Store).\<close>

record Store =
  storedReviews :: "Review list"
  storedApps :: "AppMetadata list"

subsection \<open>Filter Evaluator\<close>

text \<open>Modelled from the spec: an allow-list constraint (\<^verbatim>\<open>languages\<close>, \<^verbatim>\<open>countries\<close>,
  \<^verbatim>\<open>appVersions\<close>, \<^verbatim>\<open>deviceTypes\<close>, \<^verbatim>\<open>osVersions\<close>): "membership in the supplied set;
  empty or absent list = no constraint".\<close>

fun inAllowList :: "'a list option \<Rightarrow> 'a \<Rightarrow> bool" where
  "inAllowList None x = True"
| "inAllowList (Some xs) x = (xs = [] \<or> x \<in> set xs)"

text \<open>Modelled from the spec: the components of a version string, for the "version-aware
  comparison (component-wise, not lexical string comparison)": the string is cut at the
  dots and every part is read as the decimal number its leading digits spell.\<close>

fun splitOn :: "char \<Rightarrow> string \<Rightarrow> string list" where
  "splitOn c [] = [[]]"
| "splitOn c (x # xs) =
     (if x = c then [] # splitOn c xs
      else (case splitOn c xs of [] \<Rightarrow> [[x]] | w # ws \<Rightarrow> (x # w) # ws))"

text \<open>Modelled from the spec: a decimal digit, and the number a version component spells.\<close>

definition isDigit :: "char \<Rightarrow> bool" where
  "isDigit c = (CHR ''0'' \<le> c \<and> c \<le> CHR ''9'')"

text \<open>Modelled from the spec: the number that the leading digits of a component spell.\<close>

definition readNat :: "string \<Rightarrow> nat" where
  "readNat s = foldl (\<lambda>n c. 10 * n + (of_char c - 48)) 0 (takeWhile isDigit s)"

text \<open>Modelled from the spec: the components of a version string.\<close>

definition versionOf :: "string \<Rightarrow> nat list" where
  "versionOf s = map readNat (splitOn CHR ''.'' s)"

text \<open>Modelled from the spec: the component-wise order of versions ("2.10" is above
  "2.9"); a missing component counts as 0.\<close>

fun versionLeq :: "nat list \<Rightarrow> nat list \<Rightarrow> bool" where
  "versionLeq [] bs = True"
| "versionLeq (a # as) [] = (a = 0 \<and> versionLeq as [])"
| "versionLeq (a # as) (b # bs) = (a < b \<or> (a = b \<and> versionLeq as bs))"

text \<open>Modelled from the spec: "\<^verbatim>\<open>hasFreshReply\<close>: true iff \<^verbatim>\<open>replyData\<close> present AND
  \<^verbatim>\<open>replyDate\<close> (or \<^verbatim>\<open>lastEditDate\<close> if present) is strictly newer than the review's
  \<^verbatim>\<open>lastUpdateDate\<close>". Timestamps are ISO 8601 strings of one layout (as
  \<^verbatim>\<open>Date.toISOString\<close> writes them), whose calendar order is the order of the strings.\<close>

definition freshReply :: "Review \<Rightarrow> bool" where
  "freshReply r =
     (case replyData r of
        None \<Rightarrow> False
      | Some d \<Rightarrow>
          lastUpdateDate r < (case lastEditDate d of None \<Rightarrow> replyDate d | Some e \<Rightarrow> e))"

text \<open>Modelled from the spec: the constraints on \<^verbatim>\<open>internalMetadata\<close>: "membership
  against \<^verbatim>\<open>internalMetadata\<close> fields; a review lacking \<^verbatim>\<open>internalMetadata\<close> fails any of
  these constraints if specified".\<close>

definition metadataMatches :: "Review \<Rightarrow> ReviewFilter \<Rightarrow> bool" where
  "metadataMatches r f =
     ((case ReviewFilter.status f of
         None \<Rightarrow> True
       | Some sts \<Rightarrow>
           (case internalMetadata r of
              None \<Rightarrow> False
            | Some m \<Rightarrow> InternalMetadata.status m \<in> set sts)) \<and>
      (case ReviewFilter.tags f of
         None \<Rightarrow> True
       | Some ts \<Rightarrow>
           (case internalMetadata r of
              None \<Rightarrow> False
            | Some m \<Rightarrow> list_ex (\<lambda>t. t \<in> set ts) (InternalMetadata.tags m))) \<and>
      (case ReviewFilter.assignedTo f of
         None \<Rightarrow> True
       | Some as \<Rightarrow>
           (case internalMetadata r of
              None \<Rightarrow> False
            | Some m \<Rightarrow>
                (case InternalMetadata.assignedTo m of
                   None \<Rightarrow> False
                 | Some a \<Rightarrow> a \<in> set as))))"

text \<open>Modelled from the spec: \<^verbatim>\<open>matches(review, filter)\<close> of section 4.2: "all specified
  constraints are AND-ed together"; an absent field imposes no constraint. The bounds on
  \<^verbatim>\<open>date\<close> are inclusive and compare the timestamps as strings; \<^verbatim>\<open>limit\<close> and \<^verbatim>\<open>offset\<close>
  are not constraints on a review.\<close>

definition matches :: "Review \<Rightarrow> ReviewFilter \<Rightarrow> bool" where
  "matches r f =
     ((case ReviewFilter.appPackage f of None \<Rightarrow> True | Some p \<Rightarrow> Review.appPackage r = p) \<and>
      (case minRating f of None \<Rightarrow> True | Some m \<Rightarrow> m \<le> rating r) \<and>
      (case maxRating f of None \<Rightarrow> True | Some m \<Rightarrow> rating r \<le> m) \<and>
      (case startDate f of None \<Rightarrow> True | Some d \<Rightarrow> d \<le> date r) \<and>
      (case endDate f of None \<Rightarrow> True | Some d \<Rightarrow> date r \<le> d) \<and>
      inAllowList (languages f) (language r) \<and>
      inAllowList (countries f) (country r) \<and>
      inAllowList (appVersions f) (appVersion r) \<and>
      inAllowList (deviceTypes f) (device (deviceMetadata r)) \<and>
      inAllowList (osVersions f) (osVersion (deviceMetadata r)) \<and>
      (case minAppVersion f of
         None \<Rightarrow> True
       | Some v \<Rightarrow> versionLeq (versionOf v) (versionOf (appVersion r))) \<and>
      (case minOsVersion f of
         None \<Rightarrow> True
       | Some v \<Rightarrow> versionLeq (versionOf v) (versionOf (osVersion (deviceMetadata r)))) \<and>
      (case hasReply f of None \<Rightarrow> True | Some b \<Rightarrow> (replyData r \<noteq> None) = b) \<and>
      (case hasFreshReply f of None \<Rightarrow> True | Some b \<Rightarrow> freshReply r = b) \<and>
      metadataMatches r f)"

subsection \<open>Query Engine\<close>

text \<open>Modelled from the spec: the order of the results, "by \<^verbatim>\<open>date\<close> descending, ties
  broken by \<^verbatim>\<open>id\<close> ascending": \<open>reviewBefore a b\<close> when \<open>a\<close> may stand before \<open>b\<close>.\<close>

definition reviewBefore :: "Review \<Rightarrow> Review \<Rightarrow> bool" where
  "reviewBefore a b = (date b < date a \<or> (date a = date b \<and> id' a \<le> id' b))"

text \<open>Modelled from the spec: insertion of one review into a list in that order.\<close>

fun insertReview :: "Review \<Rightarrow> Review list \<Rightarrow> Review list" where
  "insertReview r [] = [r]"
| "insertReview r (x # xs) =
     (if reviewBefore r x then r # x # xs else x # insertReview r xs)"

text \<open>Modelled from the spec: the matches "in a stable deterministic order".\<close>

definition sortReviews :: "Review list \<Rightarrow> Review list" where
  "sortReviews rs = foldr insertReview rs []"

text \<open>Modelled from the spec: the candidate set of \<^verbatim>\<open>find\<close>, "by \<^verbatim>\<open>appPackage\<close> if given,
  else entire Store".\<close>

definition candidates :: "Store \<Rightarrow> ReviewFilter \<Rightarrow> Review list" where
  "candidates s f =
     (case ReviewFilter.appPackage f of
        None \<Rightarrow> storedReviews s
      | Some p \<Rightarrow> filter (\<lambda>r. Review.appPackage r = p) (storedReviews s))"

text \<open>Modelled from the spec: every review that \<^verbatim>\<open>find\<close> selects, in order, before the
  slice by \<^verbatim>\<open>limit\<close> and \<^verbatim>\<open>offset\<close>.\<close>

definition findAll :: "Store \<Rightarrow> ReviewFilter \<Rightarrow> Review list" where
  "findAll s f = sortReviews (filter (\<lambda>r. matches r f) (candidates s f))"

text \<open>Modelled from the spec: the page that \<^verbatim>\<open>ReviewsRepository.find(filter)\<close> yields
  (section 4.3): "fetches the candidate set (by \<^verbatim>\<open>appPackage\<close> if given, else entire
  Store), applies Filter Evaluator to each, yields matches in a stable deterministic order
  [...], then slices \<^verbatim>\<open>[offset, offset+limit)\<close>. \<^verbatim>\<open>limit\<close> defaults to 20 [...];
  \<^verbatim>\<open>offset\<close> defaults to 0". The slice is the array slice of JavaScript. This is
  \<^verbatim>\<open>find\<close> without the failure that the same section words for a \<^verbatim>\<open>limit\<close> or
  \<^verbatim>\<open>offset\<close> out of range; \<open>findChecked\<close> below is \<^verbatim>\<open>find\<close> with it. The source asks
  \<^verbatim>\<open>find\<close> for \<^verbatim>\<open>limit: 1000\<close> in \<^verbatim>\<open>handleSearchReviews\<close> and filters the batch it
  gets, which a \<^verbatim>\<open>find\<close> that refuses 1000 never returns; so the handlers are stated
  over the page, and the range failure is put before \<^verbatim>\<open>handleGetReviews\<close> in
  \<open>handleGetReviewsChecked\<close>.\<close>

definition find' :: "Store \<Rightarrow> ReviewFilter \<Rightarrow> Review list" where
  "find' s f =
     (let lim = (case ReviewFilter.limit f of None \<Rightarrow> 20 | Some l \<Rightarrow> l);
          off = (case ReviewFilter.offset f of None \<Rightarrow> 0 | Some k \<Rightarrow> k)
      in slice (findAll s f) off (off + lim))"



text \<open>Modelled from the spec: \<^verbatim>\<open>ReviewsRepository.countReviews(appPackage)\<close>: "total
  reviews for a given app, ignoring filters" (section 4.1 calls it \<^verbatim>\<open>countByApp\<close>); its
  only argument is the package name.\<close>

definition countReviews :: "Store \<Rightarrow> string \<Rightarrow> int" where
  "countReviews s p = int (length (filter (\<lambda>r. Review.appPackage r = p) (storedReviews s)))"

text \<open>Modelled from the spec: \<^verbatim>\<open>ReviewsRepository.findById(id)\<close>: "Review or absent".\<close>

definition findById :: "Store \<Rightarrow> string \<Rightarrow> Review option" where
  "findById s i = List.find (\<lambda>r. id' r = i) (storedReviews s)"

subsection \<open>Reply Mutator\<close>

text \<open>Modelled from the spec: what a reply takes from its environment, the "fresh unique
  \<^verbatim>\<open>replyId\<close>" and the "current time".\<close>

record ReplyStamp =
  freshReplyId :: string
  currentTime :: string

text \<open>Modelled from the spec: the policy on the status, "advances
  \<^verbatim>\<open>internalMetadata.status\<close> to \<^verbatim>\<open>responded\<close> if not already \<^verbatim>\<open>resolved\<close>".\<close>

definition advanceStatus :: "InternalMetadata \<Rightarrow> InternalMetadata" where
  "advanceStatus m =
     (if InternalMetadata.status m = Resolved then m
      else m\<lparr>InternalMetadata.status := Responded\<rparr>)"

text \<open>Modelled from the spec: the review with its reply: the reply "overwrites any prior
  \<^verbatim>\<open>replyData\<close>".\<close>

definition withReply :: "Review \<Rightarrow> ReplyStamp \<Rightarrow> string \<Rightarrow> Review" where
  "withReply r stamp txt =
     r\<lparr>replyData :=
         Some \<lparr>ReplyData.replyId = freshReplyId stamp, replyText = txt,
               replyDate = currentTime stamp, lastEditDate = None\<rparr>,
       internalMetadata := map_option advanceStatus (internalMetadata r)\<rparr>"

text \<open>Modelled from the spec: \<^verbatim>\<open>upsertReview(review)\<close>, "replace-by-identity semantics".\<close>

definition upsertReview :: "Store \<Rightarrow> Review \<Rightarrow> Store" where
  "upsertReview s r =
     s\<lparr>storedReviews :=
         (if list_ex (\<lambda>x. id' x = id' r) (storedReviews s)
          then map (\<lambda>x. if id' x = id' r then r else x) (storedReviews s)
          else storedReviews s @ [r])\<rparr>"

text \<open>Modelled from the spec: \<^verbatim>\<open>ReviewsRepository.addReply(reviewId, replyText)\<close>
  (section 4.4), a boolean and the state after it: "\<^verbatim>\<open>replyText\<close> non-empty and \<le> 350
  characters (else \<^verbatim>\<open>InvalidArgument\<close>, rejected before any mutation)", "\<^verbatim>\<open>reviewId\<close>
  resolves to an existing Review (else returns false)". The text is checked first, as the
  handler checks its arguments before it looks the review up.\<close>

definition addReply :: "Store \<Rightarrow> ReplyStamp \<Rightarrow> string \<Rightarrow> string \<Rightarrow> error + bool \<times> Store" where
  "addReply s stamp reviewId txt =
     (if txt = [] \<or> 350 < length txt then Inl InvalidArgument
      else (case findById s reviewId of
              None \<Rightarrow> Inr (False, s)
            | Some r \<Rightarrow> Inr (True, upsertReview s (withReply r stamp txt))))"

section \<open>The request handlers (src/index.ts)\<close>

text \<open>
  A handler of class \<^verbatim>\<open>GooglePlayReviewsMCPServer\<close> reads (and \<^verbatim>\<open>handlePostReply\<close>
  changes) the state of the repositories, so it takes the \<open>Store\<close>. A thrown error is
  the left summand of the result. A handler returns the JSON text of a value
  (\<^verbatim>\<open>JSON.stringify\<close>); the model returns the value. The properties of \<^verbatim>\<open>args\<close> are the
  parameters \<open>argAppPackage\<close>, \<open>argFilter\<close> and so on; a property that must be a string
  is \<open>None\<close> when \<^verbatim>\<open>typeof\<close> does not say \<^verbatim>\<open>'string'\<close>.
\<close>

record 'a ResourceContents =
  uri :: string
  mimeType :: string
  body :: 'a

record Stats =
  totalApps :: int
  totalReviews :: int
  averageRating :: rat

text \<open>\<^verbatim>\<open>handleStatsResource\<close> (lines 290 to 308): the placeholder object.\<close>

definition handleStatsResource :: "Store \<Rightarrow> Stats ResourceContents" where
  "handleStatsResource s =
     (let generalStats = \<lparr>totalApps = 3, totalReviews = 8, averageRating = 34 / 10\<rparr>
      in \<lparr>uri = ''googleplay://stats'', mimeType = ''application/json'',
          body = generalStats\<rparr>)"

text \<open>\<^verbatim>\<open>handleAppReviewsResource\<close> (lines 313 to 328): the filter it hands to \<^verbatim>\<open>find\<close>
  is \<^verbatim>\<open>{limit: 10, offset: 0}\<close>.\<close>

definition handleAppReviewsResource :: "Store \<Rightarrow> string \<Rightarrow> Review list ResourceContents" where
  "handleAppReviewsResource s argAppPackage =
     (let reviews = find' s (emptyFilter\<lparr>ReviewFilter.limit := Some 10, ReviewFilter.offset := Some 0\<rparr>)
      in \<lparr>uri = ''googleplay://reviews/'' @ argAppPackage, mimeType = ''application/json'',
          body = reviews\<rparr>)"

text \<open>\<^verbatim>\<open>handleSpecificReviewResource\<close> (lines 333 to 349).\<close>

definition handleSpecificReviewResource ::
  "Store \<Rightarrow> string \<Rightarrow> string \<Rightarrow> error + Review ResourceContents" where
  "handleSpecificReviewResource s argAppPackage reviewId =
     (case findById s reviewId of
        None \<Rightarrow> Inl (McpError InvalidRequest)
      | Some review \<Rightarrow>
          Inr \<lparr>uri = ''googleplay://reviews/'' @ argAppPackage @ ''/'' @ reviewId,
               mimeType = ''application/json'', body = review\<rparr>)"

text \<open>
  The filter that \<^verbatim>\<open>handleGetReviews\<close> builds (lines 380 to 385):
  \<^verbatim>\<open>{ appPackage: args.appPackage, ...args.filter, limit: args.filter?.limit || 20,
  offset: args.filter?.offset || 0 }\<close>. The spread comes after \<^verbatim>\<open>appPackage\<close>, so an
  \<^verbatim>\<open>appPackage\<close> of the payload replaces the argument's.
\<close>

definition getReviewsFilter :: "string \<Rightarrow> ReviewFilter option \<Rightarrow> ReviewFilter" where
  "getReviewsFilter argAppPackage argFilter =
     (let payload = (case argFilter of None \<Rightarrow> emptyFilter | Some f \<Rightarrow> f)
      in payload
          \<lparr>ReviewFilter.appPackage :=
             (case ReviewFilter.appPackage payload of
                None \<Rightarrow> Some argAppPackage
              | Some p \<Rightarrow> Some p),
           ReviewFilter.limit := Some (orElse (ReviewFilter.limit payload) 20),
           ReviewFilter.offset := Some (orElse (ReviewFilter.offset payload) 0)\<rparr>)"

text \<open>\<^verbatim>\<open>handleGetReviews\<close> (lines 375 to 410).\<close>

definition handleGetReviews ::
  "Store \<Rightarrow> string option \<Rightarrow> ReviewFilter option \<Rightarrow> error + ReviewsResponse" where
  "handleGetReviews s argAppPackage argFilter =
     (case argAppPackage of
        None \<Rightarrow> Inl (McpError InvalidParams)
      | Some p \<Rightarrow>
          (let filter' = getReviewsFilter p argFilter;
               reviews = find' s filter';
               total = countReviews s p;
               lim = orElse (ReviewFilter.limit filter') 20;
               off = orElse (ReviewFilter.offset filter') 0
           in Inr \<lparr>reviews = reviews,
                   pagination = \<lparr>total = total, limit = lim, offset = off,
                                 hasMore = (off + lim < total)\<rparr>\<rparr>))"


text \<open>\<^verbatim>\<open>handlePostReply\<close> (lines 415 to 457): the result and the state after the call.\<close>

definition handlePostReply ::
  "Store \<Rightarrow> ReplyStamp \<Rightarrow> string option \<Rightarrow> string option \<Rightarrow> (error + ReplyResponse) \<times> Store" where
  "handlePostReply s stamp argReviewId argReplyText =
     (case argReviewId of
        None \<Rightarrow> (Inl (McpError InvalidParams), s)
      | Some reviewId \<Rightarrow>
          (case argReplyText of
             None \<Rightarrow> (Inl (McpError InvalidParams), s)
           | Some txt \<Rightarrow>
               if 350 < length txt then (Inl (McpError InvalidParams), s)
               else (case addReply s stamp reviewId txt of
                       Inl e \<Rightarrow> (Inl e, s)
                     | Inr (succeeded, s') \<Rightarrow>
                         if \<not> succeeded then (Inl (McpError InvalidRequest), s')
                         else (case findById s' reviewId of
                                 None \<Rightarrow> (Inl (McpError InternalError), s')
                               | Some review \<Rightarrow>
                                   (case replyData review of
                                      None \<Rightarrow> (Inl (McpError InternalError), s')
                                    | Some d \<Rightarrow>
                                        (Inr \<lparr>success = True,
                                              ReplyResponse.replyId = ReplyData.replyId d,
                                              timestamp = replyDate d\<rparr>, s'))))))"

text \<open>
  The parts of \<^verbatim>\<open>handleSearchReviews\<close> (lines 462 to 524). \<open>appPackageFilter\<close>:
  \<^verbatim>\<open>args.appPackage ? (review) => review.appPackage === args.appPackage : () => true\<close>;
  the empty string is falsy.
\<close>

definition appPackageFilter :: "string option \<Rightarrow> Review \<Rightarrow> bool" where
  "appPackageFilter argAppPackage review =
     (case argAppPackage of
        None \<Rightarrow> True
      | Some p \<Rightarrow> if p = [] then True else Review.appPackage review = p)"

text \<open>\<open>queryFilter\<close>, with \<open>query\<close> the lower-cased \<^verbatim>\<open>args.query\<close>:
  \<^verbatim>\<open>review.text.toLowerCase().includes(query) ||
  (review.title && review.title.toLowerCase().includes(query))\<close>; an absent title and
  the empty title are falsy.\<close>

definition queryFilter :: "string \<Rightarrow> Review \<Rightarrow> bool" where
  "queryFilter query review =
     (includes' (toLowerCase (text' review)) query \<or>
      (case Review.title review of
         None \<Rightarrow> False
       | Some t \<Rightarrow> t \<noteq> [] \<and> includes' (toLowerCase t) query))"

definition combinedFilter :: "string option \<Rightarrow> string \<Rightarrow> Review \<Rightarrow> bool" where
  "combinedFilter argAppPackage query review =
     (appPackageFilter argAppPackage review \<and> queryFilter query review)"

text \<open>The filter of the search: \<^verbatim>\<open>{...(args.filter || {}), limit: args.limit || 20,
  offset: args.offset || 0}\<close>.\<close>

definition searchFilter :: "ReviewFilter option \<Rightarrow> int option \<Rightarrow> int option \<Rightarrow> ReviewFilter" where
  "searchFilter argFilter argLimit argOffset =
     (case argFilter of None \<Rightarrow> emptyFilter | Some f \<Rightarrow> f)
       \<lparr>ReviewFilter.limit := Some (orElse argLimit 20),
        ReviewFilter.offset := Some (orElse argOffset 0)\<rparr>"

text \<open>\<open>matchingReviews\<close> (lines 491 to 497): the batch that \<^verbatim>\<open>find\<close> returns for
  \<^verbatim>\<open>{...filter, limit: 1000, offset: 0}\<close>, filtered by \<open>combinedFilter\<close>.\<close>

definition matchingReviews ::
  "Store \<Rightarrow> string \<Rightarrow> string option \<Rightarrow> ReviewFilter option \<Rightarrow> int option \<Rightarrow> int option
     \<Rightarrow> Review list" where
  "matchingReviews s argQuery argAppPackage argFilter argLimit argOffset =
     (let filter' = searchFilter argFilter argLimit argOffset;
          query = toLowerCase argQuery;
          reviews = find' s (filter'\<lparr>ReviewFilter.limit := Some 1000, ReviewFilter.offset := Some 0\<rparr>)
      in filter (combinedFilter argAppPackage query) reviews)"

text \<open>\<^verbatim>\<open>handleSearchReviews\<close>.\<close>

definition handleSearchReviews ::
  "Store \<Rightarrow> string option \<Rightarrow> string option \<Rightarrow> ReviewFilter option \<Rightarrow> int option \<Rightarrow> int option
     \<Rightarrow> error + ReviewsResponse" where
  "handleSearchReviews s argQuery argAppPackage argFilter argLimit argOffset =
     (case argQuery of
        None \<Rightarrow> Inl (McpError InvalidParams)
      | Some q \<Rightarrow>
          (let matching = matchingReviews s q argAppPackage argFilter argLimit argOffset;
               totalMatches = int (length matching);
               off = orElse argOffset 0;
               lim = orElse argLimit 20;
               paginatedReviews = slice matching off (off + lim)
           in Inr \<lparr>reviews = paginatedReviews,
                   pagination = \<lparr>total = totalMatches, limit = lim, offset = off,
                                 hasMore = (off + lim < totalMatches)\<rparr>\<rparr>))"

section \<open>Notions of the specification\<close>

text \<open>
  The words of the specification that the claims compare the handlers with: "a
  case-insensitive substring test against \<^verbatim>\<open>text\<close> and optional \<^verbatim>\<open>title\<close>", and the
  "arithmetic mean" of ratings.
\<close>

definition caseInsensitiveSubstring :: "string \<Rightarrow> string \<Rightarrow> bool" where
  "caseInsensitiveSubstring q s = sublist (toLowerCase q) (toLowerCase s)"

definition textMatches :: "string \<Rightarrow> Review \<Rightarrow> bool" where
  "textMatches q r =
     (caseInsensitiveSubstring q (text' r) \<or>
      (case Review.title r of None \<Rightarrow> False | Some t \<Rightarrow> caseInsensitiveSubstring q t))"

definition meanRating :: "Review list \<Rightarrow> rat" where
  "meanRating rs = of_int (sum_list (map rating rs)) / of_int (int (length rs))"

section \<open>Example states\<close>

definition exampleReview :: "string \<Rightarrow> string \<Rightarrow> int \<Rightarrow> string \<Rightarrow> Review" where
  "exampleReview i p n t =
     \<lparr>id' = i, Review.appPackage = p, userName = ''user'', userImage = None, rating = n,
      Review.title = None, text' = t, date = ''2025-03-01T10:00:00.000Z'',
      lastUpdateDate = ''2025-03-01T10:00:00.000Z'', language = ''en'', country = ''US'',
      appVersion = ''1.0.0'',
      deviceMetadata = \<lparr>device = ''Pixel 8'', os = ''Android'', osVersion = ''14''\<rparr>,
      replyData = None, internalMetadata = None\<rparr>"

definition exampleApp :: AppMetadata where
  "exampleApp =
     \<lparr>packageName = ''com.example.app'', AppMetadata.title = ''Example'', icon = None,
      latestVersion = None, description = None, category = None, developer = None,
      updatedAt = None\<rparr>"

text \<open>Three reviews of \<^verbatim>\<open>com.example.app\<close>, rated 5, 1 and 5, and one review of another
  app.\<close>

definition exampleStore :: Store where
  "exampleStore =
     \<lparr>storedReviews =
        [exampleReview ''r1'' ''com.example.app'' 5 ''Great app'',
         exampleReview ''r2'' ''com.example.app'' 1 ''Crash!!'',
         exampleReview ''r3'' ''com.example.app'' 5 ''Love it'',
         exampleReview ''r4'' ''org.other.app'' 2 ''Too slow''],
      storedApps = [exampleApp]\<rparr>"

text \<open>A store of 1001 reviews with distinct ids, whose text is \<^verbatim>\<open>a\<close>.\<close>

definition bigReview :: "nat \<Rightarrow> Review" where
  "bigReview n = exampleReview (replicate n CHR ''x'') ''com.example.app'' 5 ''a''"

definition bigStore :: Store where
  "bigStore = \<lparr>storedReviews = map bigReview [0..<1001], storedApps = [exampleApp]\<rparr>"

definition exampleStamp :: ReplyStamp where
  "exampleStamp = \<lparr>freshReplyId = ''reply-1'', currentTime = ''2025-04-01T00:00:00.000Z''\<rparr>"

section \<open>Properties of the operations\<close>

lemma includes'_sublist: "includes' s q = sublist q s"
  by (induction s) (simp_all add: sublist_Cons_right)

lemma queryFilter_textMatches: "queryFilter (toLowerCase q) r = textMatches q r"
  by (auto simp: queryFilter_def textMatches_def caseInsensitiveSubstring_def includes'_sublist
      toLowerCase_def split: option.splits)

lemma toLowerCase_lower: "toLowerCase ''crash'' = ''crash''" "toLowerCase ''a'' = ''a''"
  by code_simp+

lemma set_insertReview: "set (insertReview r xs) = insert r (set xs)"
  by (induction xs) auto

lemma length_insertReview: "length (insertReview r xs) = Suc (length xs)"
  by (induction xs) simp_all

lemma set_sortReviews: "set (sortReviews rs) = set rs"
  by (induction rs) (simp_all add: sortReviews_def set_insertReview)

lemma length_sortReviews: "length (sortReviews rs) = length rs"
  by (induction rs) (simp_all add: sortReviews_def length_insertReview)

lemma reviewBefore_total: "\<not> reviewBefore a b \<Longrightarrow> reviewBefore b a"
  by (auto simp: reviewBefore_def)

lemma reviewBefore_trans: "reviewBefore a b \<Longrightarrow> reviewBefore b c \<Longrightarrow> reviewBefore a c"
  by (auto simp: reviewBefore_def)

lemma sorted_insertReview:
  "sorted_wrt reviewBefore xs \<Longrightarrow> sorted_wrt reviewBefore (insertReview r xs)"
proof (induction xs)
  case Nil
  then show ?case by simp
next
  case (Cons x xs)
  show ?case
  proof (cases "reviewBefore r x")
    case True
    with Cons.prems show ?thesis
      by (auto intro: reviewBefore_trans)
  next
    case False
    then have "reviewBefore x r" by (rule reviewBefore_total)
    with Cons False show ?thesis
      by (auto simp: set_insertReview)
  qed
qed

lemma sorted_sortReviews: "sorted_wrt reviewBefore (sortReviews rs)"
  by (induction rs) (simp_all add: sortReviews_def sorted_insertReview)

lemma metadataMatches_paging:
  "metadataMatches r (f\<lparr>ReviewFilter.limit := l, ReviewFilter.offset := k\<rparr>) = metadataMatches r f"
  by (simp add: metadataMatches_def)

lemma matches_paging:
  "matches r (f\<lparr>ReviewFilter.limit := l, ReviewFilter.offset := k\<rparr>) = matches r f"
  by (simp add: matches_def metadataMatches_paging)

lemma candidates_paging:
  "candidates s (f\<lparr>ReviewFilter.limit := l, ReviewFilter.offset := k\<rparr>) = candidates s f"
  by (simp add: candidates_def)

lemma findAll_paging:
  "findAll s (f\<lparr>ReviewFilter.limit := l, ReviewFilter.offset := k\<rparr>) = findAll s f"
  by (simp add: findAll_def matches_paging candidates_paging)

lemma matches_appPackage:
  "matches r f \<Longrightarrow> ReviewFilter.appPackage f = Some p \<Longrightarrow> Review.appPackage r = p"
  by (simp add: matches_def)

lemma filter_matches_candidates:
  "filter (\<lambda>r. matches r f) (candidates s f) = filter (\<lambda>r. matches r f) (storedReviews s)"
  by (cases "ReviewFilter.appPackage f") (auto simp: candidates_def matches_def intro: filter_cong)

lemma set_findAll: "set (findAll s f) = {r \<in> set (storedReviews s). matches r f}"
  by (simp add: findAll_def set_sortReviews filter_matches_candidates)

lemma length_findAll:
  "length (findAll s f) = length (filter (\<lambda>r. matches r f) (storedReviews s))"
  by (simp add: findAll_def length_sortReviews filter_matches_candidates)

lemma set_slice: "set (slice xs a b) \<subseteq> set xs"
  unfolding slice_def Let_def
  by (meson order_trans set_take_subset set_drop_subset)

lemma slice_from_start: "0 \<le> n \<Longrightarrow> slice xs 0 n = take (nat n) xs"
  by (auto simp: slice_def relativeIndex_def min_def Let_def)

lemma find'_batch:
  "find' s (f\<lparr>ReviewFilter.limit := Some 1000, ReviewFilter.offset := Some 0\<rparr>) =
     take 1000 (findAll s f)"
  by (simp add: find'_def findAll_paging slice_from_start)

lemma set_find': "set (find' s f) \<subseteq> {r \<in> set (storedReviews s). matches r f}"
  using set_slice set_findAll unfolding find'_def Let_def by metis

lemma bigReview_matches:
  "matches (bigReview n) (emptyFilter\<lparr>ReviewFilter.limit := l, ReviewFilter.offset := k\<rparr>)"
  by (simp add: matches_def metadataMatches_def emptyFilter_def)

lemma bigReview_combined: "combinedFilter None ''a'' (bigReview n)"
  by (simp add: combinedFilter_def appPackageFilter_def queryFilter_def bigReview_def
      exampleReview_def toLowerCase_lower)

lemma bigStore_findAll_length:
  "length (findAll bigStore (emptyFilter\<lparr>ReviewFilter.limit := l, ReviewFilter.offset := k\<rparr>)) = 1001"
  by (simp add: length_findAll bigStore_def bigReview_matches)

lemma bigStore_matching:
  "matchingReviews bigStore ''a'' None None None None =
     take 1000 (findAll bigStore
       (emptyFilter\<lparr>ReviewFilter.limit := Some 20, ReviewFilter.offset := Some 0\<rparr>))"
proof -
  let ?f = "emptyFilter\<lparr>ReviewFilter.limit := Some 20, ReviewFilter.offset := Some 0\<rparr>"
  have "set (take 1000 (findAll bigStore ?f)) \<subseteq> set (storedReviews bigStore)"
    using set_take_subset [of 1000 "findAll bigStore ?f"] by (auto simp: set_findAll)
  then have "\<forall>r \<in> set (take 1000 (findAll bigStore ?f)). combinedFilter None ''a'' r"
    by (auto simp: bigStore_def bigReview_combined)
  then have "filter (combinedFilter None ''a'') (take 1000 (findAll bigStore ?f)) =
      take 1000 (findAll bigStore ?f)"
    by (simp add: filter_id_conv)
  then show ?thesis
    by (simp add: matchingReviews_def searchFilter_def find'_batch toLowerCase_lower Let_def)
qed

lemma handleGetReviews_total:
  "handleGetReviews s (Some p) argFilter = Inr resp \<Longrightarrow>
   total (pagination resp) = countReviews s p"
  by (auto simp: handleGetReviews_def Let_def)

lemma find_after_replace:
  "id' r' = i \<Longrightarrow> List.find (\<lambda>x. id' x = i) xs = Some r \<Longrightarrow>
   List.find (\<lambda>x. id' x = i) (map (\<lambda>x. if id' x = i then r' else x) xs) = Some r'"
  by (induction xs) (auto split: if_splits)

lemma findById_upsert:
  assumes "findById s i = Some r" and "id' r' = i"
  shows "findById (upsertReview s r') i = Some r'"
proof -
  from assms(1) have "list_ex (\<lambda>x. id' x = i) (storedReviews s)"
    by (auto simp: findById_def list_ex_iff find_Some_iff)
  with assms show ?thesis
    by (simp add: findById_def upsertReview_def find_after_replace)
qed

lemma findById_exists:
  "i \<in> id' ` set (storedReviews s) \<Longrightarrow>
   \<exists>r. findById s i = Some r \<and> r \<in> set (storedReviews s) \<and> id' r = i"
  unfolding findById_def
  by (cases "List.find (\<lambda>r. id' r = i) (storedReviews s)")
     (auto simp: find_None_iff find_Some_iff)

lemma searchFilter_findAll:
  "findAll s (searchFilter argFilter argLimit argOffset) =
     findAll s (case argFilter of None \<Rightarrow> emptyFilter | Some f \<Rightarrow> f)"
  by (simp add: searchFilter_def findAll_paging)

lemma combinedFilter_iff:
  "combinedFilter argAppPackage (toLowerCase q) r =
     ((argAppPackage = None \<or> argAppPackage = Some [] \<or>
       argAppPackage = Some (Review.appPackage r)) \<and> textMatches q r)"
  by (cases argAppPackage)
     (auto simp: combinedFilter_def appPackageFilter_def queryFilter_textMatches)


lemma matchingReviews_paging:
  "matchingReviews s q argAppPackage argFilter argLimit argOffset =
     matchingReviews s q argAppPackage argFilter None None"
  by (simp add: matchingReviews_def searchFilter_def find'_batch findAll_paging)

text \<open>Where at most 1000 stored reviews pass the filter of the request, the batch holds
  all of them, and the match list of \<^verbatim>\<open>search_reviews\<close> is what the text test selects
  among them.\<close>

lemma matchingReviews_within_batch:
  assumes "length (filter (\<lambda>x. matches x (case argFilter of None \<Rightarrow> emptyFilter | Some f \<Rightarrow> f))
             (storedReviews s)) \<le> 1000"
  shows "(r \<in> set (matchingReviews s q argAppPackage argFilter argLimit argOffset) \<longleftrightarrow>
            r \<in> set (storedReviews s) \<and>
            matches r (case argFilter of None \<Rightarrow> emptyFilter | Some f \<Rightarrow> f) \<and>
            (argAppPackage = None \<or> argAppPackage = Some [] \<or>
             argAppPackage = Some (Review.appPackage r)) \<and>
            textMatches q r) \<and>
         handleSearchReviews s (Some q) argAppPackage argFilter argLimit argOffset =
           Inr \<lparr>reviews = slice (matchingReviews s q argAppPackage argFilter argLimit argOffset)
                   (orElse argOffset 0) (orElse argOffset 0 + orElse argLimit 20),
                pagination =
                  \<lparr>total =
                     int (length (matchingReviews s q argAppPackage argFilter argLimit argOffset)),
                   limit = orElse argLimit 20, offset = orElse argOffset 0,
                   hasMore = (orElse argOffset 0 + orElse argLimit 20 <
                     int (length
                       (matchingReviews s q argAppPackage argFilter argLimit argOffset)))\<rparr>\<rparr>"
proof -
  let ?payload = "case argFilter of None \<Rightarrow> emptyFilter | Some f \<Rightarrow> f"
  have "length (findAll s ?payload) \<le> 1000"
    using assms by (simp add: length_findAll)
  then have "take 1000 (findAll s ?payload) = findAll s ?payload"
    by simp
  then have "matchingReviews s q argAppPackage argFilter argLimit argOffset =
      filter (combinedFilter argAppPackage (toLowerCase q)) (findAll s ?payload)"
    by (simp add: matchingReviews_def find'_batch searchFilter_findAll Let_def)
  then have "r \<in> set (matchingReviews s q argAppPackage argFilter argLimit argOffset) \<longleftrightarrow>
      r \<in> set (storedReviews s) \<and> matches r ?payload \<and>
      (argAppPackage = None \<or> argAppPackage = Some [] \<or>
       argAppPackage = Some (Review.appPackage r)) \<and> textMatches q r"
    by (auto simp: set_findAll combinedFilter_iff)
  then show ?thesis
    by (simp add: handleSearchReviews_def Let_def)
qed

lemma matchingReviews_crash:
  "map id' (matchingReviews exampleStore ''crash'' None None None None) = [''r2'']"
  by code_simp

lemma replicate_le: "i \<le> j \<Longrightarrow> replicate i (c::char) \<le> replicate j c"
proof (induction i arbitrary: j)
  case 0
  then show ?case by simp
next
  case (Suc i)
  then obtain j' where "j = Suc j'" "i \<le> j'" by (cases j) auto
  with Suc.IH show ?case by simp
qed

lemma sortReviews_sorted: "sorted_wrt reviewBefore xs \<Longrightarrow> sortReviews xs = xs"
proof (induction xs)
  case Nil
  then show ?case by (simp add: sortReviews_def)
next
  case (Cons x xs)
  then have "sortReviews xs = xs" by simp
  then have "sortReviews (x # xs) = insertReview x xs"
    by (simp add: sortReviews_def)
  with Cons.prems show ?case by (cases xs) auto
qed

lemma bigReviews_sorted: "sorted_wrt reviewBefore (map bigReview [0..<n])"
proof -
  have "sorted_wrt (\<lambda>i j. reviewBefore (bigReview i) (bigReview j)) [0..<n]"
    by (rule sorted_wrt_mono_rel [of _ "(<)"])
       (auto simp: reviewBefore_def bigReview_def exampleReview_def replicate_le)
  then show ?thesis by (simp add: sorted_wrt_map)
qed

lemma bigStore_findAll:
  "findAll bigStore (emptyFilter\<lparr>ReviewFilter.limit := l, ReviewFilter.offset := k\<rparr>) =
     map bigReview [0..<1001]"
proof -
  let ?f = "emptyFilter\<lparr>ReviewFilter.limit := l, ReviewFilter.offset := k\<rparr>"
  have "filter (\<lambda>r. matches r ?f) (storedReviews bigStore) = storedReviews bigStore"
    by (auto simp: filter_id_conv bigStore_def bigReview_matches)
  then show ?thesis
    by (simp add: findAll_def filter_matches_candidates bigStore_def sortReviews_sorted
        bigReviews_sorted)
qed

lemma bigStore_match_list:
  "matchingReviews bigStore ''a'' None None None None = map bigReview [0..<1000]"
proof -
  have "take 1000 (map bigReview [0..<1001]) = map bigReview [0..<1000]"
    by (simp add: take_map)
  then show ?thesis
    by (simp add: bigStore_matching bigStore_findAll)
qed

lemma bigReview_inj: "(bigReview m = bigReview n) = (m = n)"
proof
  assume "bigReview m = bigReview n"
  then have "id' (bigReview m) = id' (bigReview n)" by simp
  then have "length (replicate m CHR ''x'') = length (replicate n CHR ''x'')"
    by (simp add: bigReview_def exampleReview_def)
  then show "m = n" by simp
qed simp

section \<open>The claims\<close>

text \<open>
  C1. The claim: the \<^verbatim>\<open>pagination.total\<close> of \<^verbatim>\<open>get_reviews\<close> is the number of reviews
  that match the whole filter. The handler asks \<^verbatim>\<open>countReviews(args.appPackage)\<close> for
  it, which knows the package name only. In the store with three reviews of
  \<^verbatim>\<open>com.example.app\<close> rated 5, 1, 5 and the filter \<^verbatim>\<open>{minRating: 5}\<close>, the handler
  returns the two reviews rated 5, two stored reviews match the filter it built, and
  \<^verbatim>\<open>pagination.total\<close> is 3.
\<close>

theorem get_reviews_total_ignores_filter:
  "(case handleGetReviews exampleStore (Some ''com.example.app'')
           (Some (emptyFilter\<lparr>minRating := Some 5\<rparr>)) of
      Inl e \<Rightarrow> False
    | Inr resp \<Rightarrow> map id' (reviews resp) = [''r1'', ''r3''] \<and> total (pagination resp) = 3) \<and>
   length (filter (\<lambda>r. matches r (getReviewsFilter ''com.example.app''
             (Some (emptyFilter\<lparr>minRating := Some 5\<rparr>)))) (storedReviews exampleStore)) = 2"
  by code_simp

text \<open>
  C2. The claim: \<^verbatim>\<open>search_reviews\<close> tests the text of every candidate, and
  \<^verbatim>\<open>pagination.total\<close> counts all of them that pass. The handler tests the batch of at
  most 1000 reviews that \<^verbatim>\<open>find\<close> returns: in the store of 1001 reviews, which all pass
  the (empty) filter and contain the query \<^verbatim>\<open>a\<close>, \<^verbatim>\<open>pagination.total\<close> is 1000.
\<close>

theorem search_reviews_truncated_batch:
  "(case handleSearchReviews bigStore (Some ''a'') None None None None of
      Inl e \<Rightarrow> False
    | Inr resp \<Rightarrow> total (pagination resp) = 1000) \<and>
   length (filter (\<lambda>r. matches r emptyFilter \<and> textMatches ''a'' r) (storedReviews bigStore)) =
     1001"
proof -
  have "length (matchingReviews bigStore ''a'' None None None None) = 1000"
    by (simp add: bigStore_matching bigStore_findAll_length)
  then have a: "(case handleSearchReviews bigStore (Some ''a'') None None None None of
      Inl e \<Rightarrow> False | Inr resp \<Rightarrow> total (pagination resp) = 1000)"
    by (simp add: handleSearchReviews_def Let_def)
  have "\<And>n. matches (bigReview n) emptyFilter \<and> textMatches ''a'' (bigReview n)"
    using bigReview_combined queryFilter_textMatches [of "''a''"]
    by (simp add: matches_def metadataMatches_def emptyFilter_def combinedFilter_def
        toLowerCase_lower)
  then have "filter (\<lambda>r. matches r emptyFilter \<and> textMatches ''a'' r) (storedReviews bigStore) =
      storedReviews bigStore"
    by (auto simp: filter_id_conv bigStore_def)
  then have b: "length (filter (\<lambda>r. matches r emptyFilter \<and> textMatches ''a'' r)
      (storedReviews bigStore)) = 1001"
    by (simp add: bigStore_def)
  from a b show ?thesis by simp
qed

text \<open>
  C3. The claim: the resource \<^verbatim>\<open>googleplay://reviews/P\<close> holds reviews of the app \<open>P\<close>
  only. \<^verbatim>\<open>handleAppReviewsResource\<close> hands \<^verbatim>\<open>{limit: 10, offset: 0}\<close> to \<^verbatim>\<open>find\<close>, with
  no \<^verbatim>\<open>appPackage\<close>: read for \<^verbatim>\<open>com.example.app\<close>, the resource also holds the review of
  \<^verbatim>\<open>org.other.app\<close>.
\<close>

theorem app_reviews_resource_other_app:
  "map Review.appPackage (body (handleAppReviewsResource exampleStore ''com.example.app'')) =
     [''com.example.app'', ''com.example.app'', ''com.example.app'', ''org.other.app'']"
  by code_simp




text \<open>
  C5. A \<^verbatim>\<open>post_reply\<close> request with the empty \<^verbatim>\<open>replyText\<close> fails with an error of the
  invalid-argument class, and the store after the call is the store before it, whatever
  \<^verbatim>\<open>reviewId\<close> is (a string or not, of a stored review or not).
\<close>

theorem post_reply_empty_text_rejected:
  "\<exists>e. handlePostReply s stamp argReviewId (Some []) = (Inl e, s) \<and> invalidArgumentClass e"
  by (cases argReviewId) (simp_all add: handlePostReply_def addReply_def)

text \<open>
  C6. For a \<^verbatim>\<open>post_reply\<close> request whose \<^verbatim>\<open>reviewId\<close> is the id of a stored review: a
  \<^verbatim>\<open>replyText\<close> of exactly 350 characters succeeds (the response carries the new reply
  id, and the review found under that id afterwards holds the text), and a \<^verbatim>\<open>replyText\<close>
  of more than 350 characters fails with an error of the invalid-argument class and leaves
  the store as it was.
\<close>

theorem post_reply_length_boundary:
  assumes "reviewId \<in> id' ` set (storedReviews s)"
  shows "(length txt = 350 \<longrightarrow>
            (\<exists>resp s'. handlePostReply s stamp (Some reviewId) (Some txt) = (Inr resp, s') \<and>
               success resp \<and> ReplyResponse.replyId resp = freshReplyId stamp \<and>
               map_option ReplyData.replyText (Option.bind (findById s' reviewId) replyData) =
                 Some txt)) \<and>
         (350 < length txt \<longrightarrow>
            (\<exists>e. handlePostReply s stamp (Some reviewId) (Some txt) = (Inl e, s) \<and>
               invalidArgumentClass e))"
proof (intro conjI impI)
  assume len: "length txt = 350"
  from assms obtain r where r: "findById s reviewId = Some r" "id' r = reviewId"
    using findById_exists by blast
  have ne: "txt \<noteq> []" using len by auto
  have "id' (withReply r stamp txt) = reviewId"
    using r(2) by (simp add: withReply_def)
  then have found: "findById (upsertReview s (withReply r stamp txt)) reviewId =
      Some (withReply r stamp txt)"
    using r(1) by (rule findById_upsert [rotated])
  show "\<exists>resp s'. handlePostReply s stamp (Some reviewId) (Some txt) = (Inr resp, s') \<and>
      success resp \<and> ReplyResponse.replyId resp = freshReplyId stamp \<and>
      map_option ReplyData.replyText (Option.bind (findById s' reviewId) replyData) = Some txt"
    using len ne r(1) found
    by (simp add: handlePostReply_def addReply_def withReply_def)
next
  assume "350 < length txt"
  then show "\<exists>e. handlePostReply s stamp (Some reviewId) (Some txt) = (Inl e, s) \<and>
      invalidArgumentClass e"
    by (simp add: handlePostReply_def)
qed

theorem post_reply_length_boundary_witness:
  "''r2'' \<in> id' ` set (storedReviews exampleStore) \<and>
   length (replicate 350 CHR ''a'') = 350 \<and>
   (\<exists>resp s'. handlePostReply exampleStore exampleStamp (Some ''r2'')
        (Some (replicate 350 CHR ''a'')) = (Inr resp, s') \<and> success resp \<and>
        ReplyResponse.replyId resp = freshReplyId exampleStamp \<and>
        map_option ReplyData.replyText (Option.bind (findById s' ''r2'') replyData) =
          Some (replicate 350 CHR ''a'')) \<and>
   350 < length (replicate 351 CHR ''a'') \<and>
   (\<exists>e. handlePostReply exampleStore exampleStamp (Some ''r2'')
        (Some (replicate 351 CHR ''a'')) = (Inl e, exampleStore) \<and> invalidArgumentClass e)"
proof -
  have h: "''r2'' \<in> id' ` set (storedReviews exampleStore)"
    by (simp add: exampleStore_def exampleReview_def)
  show ?thesis
    using h post_reply_length_boundary [OF h, of "replicate 350 CHR ''a''" exampleStamp]
      post_reply_length_boundary [OF h, of "replicate 351 CHR ''a''" exampleStamp]
    by simp
qed

text \<open>
  C7. The claim: \<^verbatim>\<open>googleplay://stats\<close> reports the number of apps, the number of reviews
  and the mean rating of the store. In the example store (one app, four reviews rated
  5, 1, 5, 2) none of the three figures is the store's.
\<close>

theorem stats_resource_counterexample:
  "totalApps (body (handleStatsResource exampleStore)) \<noteq>
     int (length (storedApps exampleStore)) \<and>
   totalReviews (body (handleStatsResource exampleStore)) \<noteq>
     int (length (storedReviews exampleStore)) \<and>
   averageRating (body (handleStatsResource exampleStore)) \<noteq>
     meanRating (storedReviews exampleStore)"
  by (simp add: handleStatsResource_def exampleStore_def exampleReview_def meanRating_def)

text \<open>
  C7, as amended. \<^verbatim>\<open>handleStatsResource\<close> returns the same placeholder in every state:
  3 apps, 8 reviews, the average rating 3.4.
\<close>

theorem stats_resource_placeholder:
  "handleStatsResource s = handleStatsResource s' \<and>
   body (handleStatsResource s) = \<lparr>totalApps = 3, totalReviews = 8, averageRating = 17 / 5\<rparr>"
  by (simp add: handleStatsResource_def)

text \<open>
  C8. The claim: a review is in the match list of \<^verbatim>\<open>search_reviews\<close> if and only if it
  passes the other filters and the query is a case-insensitive substring of its text or
  title. The match list is filtered out of a batch of at most 1000 reviews. In the store
  of 1001 reviews, the review whose id is 1000 times \<^verbatim>\<open>x\<close> is stored, passes the (empty)
  filter and contains the query \<^verbatim>\<open>a\<close>; it is not in the match list, and not in the
  response, whatever \<^verbatim>\<open>limit\<close> and \<^verbatim>\<open>offset\<close> the request has.
\<close>

theorem search_reviews_match_list_drops_review:
  "bigReview 1000 \<in> set (storedReviews bigStore) \<and>
   matches (bigReview 1000) emptyFilter \<and>
   textMatches ''a'' (bigReview 1000) \<and>
   bigReview 1000 \<notin> set (matchingReviews bigStore ''a'' None None argLimit argOffset) \<and>
   (case handleSearchReviews bigStore (Some ''a'') None None argLimit argOffset of
      Inl e \<Rightarrow> False
    | Inr resp \<Rightarrow> bigReview 1000 \<notin> set (reviews resp))"
proof -
  have a: "bigReview 1000 \<in> set (storedReviews bigStore)"
    by (simp add: bigStore_def)
  have "combinedFilter None ''a'' (bigReview 1000)"
    by (rule bigReview_combined)
  then have t: "textMatches ''a'' (bigReview 1000)"
    using queryFilter_textMatches [of "''a''" "bigReview 1000"]
    by (simp add: combinedFilter_def toLowerCase_lower)
  have m: "matches (bigReview 1000) emptyFilter"
    by (simp add: matches_def metadataMatches_def emptyFilter_def)
  have "matchingReviews bigStore ''a'' None None argLimit argOffset = map bigReview [0..<1000]"
    using matchingReviews_paging [of bigStore "''a''" None None argLimit argOffset]
    by (simp add: bigStore_match_list)
  then have n: "bigReview 1000 \<notin> set (matchingReviews bigStore ''a'' None None argLimit argOffset)"
    by (auto simp: bigReview_inj)
  then have "bigReview 1000 \<notin>
      set (slice (matchingReviews bigStore ''a'' None None argLimit argOffset)
        (orElse argOffset 0) (orElse argOffset 0 + orElse argLimit 20))"
    using set_slice by fastforce
  then have r: "(case handleSearchReviews bigStore (Some ''a'') None None argLimit argOffset of
      Inl e \<Rightarrow> False
    | Inr resp \<Rightarrow> bigReview 1000 \<notin> set (reviews resp))"
    by (simp add: handleSearchReviews_def Let_def)
  from a m t n r show ?thesis by simp
qed

text \<open>
  C9. In \<^verbatim>\<open>get_reviews\<close>, when the filter payload has an \<^verbatim>\<open>appPackage\<close> of its own, that
  one selects the reviews (the spread follows the assignment of \<^verbatim>\<open>args.appPackage\<close>):
  every review of the response is of the payload's app, while \<^verbatim>\<open>pagination.total\<close> is
  the number of stored reviews of the app named by the argument.
\<close>

theorem get_reviews_payload_package_overrides:
  assumes "ReviewFilter.appPackage f = Some q"
  shows "\<exists>resp. handleGetReviews s (Some p) (Some f) = Inr resp \<and>
           ReviewFilter.appPackage (getReviewsFilter p (Some f)) = Some q \<and>
           reviews resp = find' s (getReviewsFilter p (Some f)) \<and>
           (\<forall>r \<in> set (reviews resp). Review.appPackage r = q) \<and>
           total (pagination resp) =
             int (length (filter (\<lambda>r. Review.appPackage r = p) (storedReviews s)))"
proof -
  have pkg: "ReviewFilter.appPackage (getReviewsFilter p (Some f)) = Some q"
    using assms by (simp add: getReviewsFilter_def)
  have "\<forall>r \<in> set (find' s (getReviewsFilter p (Some f))). Review.appPackage r = q"
    using set_find' [of s "getReviewsFilter p (Some f)"] matches_appPackage [OF _ pkg] by blast
  then show ?thesis
    using pkg by (simp add: handleGetReviews_def countReviews_def Let_def)
qed

text \<open>For some inputs the reviews and the total are of different apps: asked for
  \<^verbatim>\<open>com.example.app\<close> with the payload \<^verbatim>\<open>{appPackage: "org.other.app"}\<close>, the handler
  returns the one review of \<^verbatim>\<open>org.other.app\<close> and the total 3, the number of reviews of
  \<^verbatim>\<open>com.example.app\<close>.\<close>

theorem get_reviews_payload_package_overrides_witness:
  "ReviewFilter.appPackage (emptyFilter\<lparr>ReviewFilter.appPackage := Some ''org.other.app''\<rparr>) =
     Some ''org.other.app'' \<and>
   (\<exists>resp. handleGetReviews exampleStore (Some ''com.example.app'')
        (Some (emptyFilter\<lparr>ReviewFilter.appPackage := Some ''org.other.app''\<rparr>)) = Inr resp \<and>
      map id' (reviews resp) = [''r4''] \<and>
      map Review.appPackage (reviews resp) = [''org.other.app''] \<and>
      total (pagination resp) = 3)"
proof -
  let ?f = "emptyFilter\<lparr>ReviewFilter.appPackage := Some ''org.other.app''\<rparr>"
  have h: "ReviewFilter.appPackage ?f = Some ''org.other.app''" by simp
  have e: "map id' (find' exampleStore (getReviewsFilter ''com.example.app'' (Some ?f))) = [''r4'']"
    "map Review.appPackage (find' exampleStore (getReviewsFilter ''com.example.app'' (Some ?f))) =
       [''org.other.app'']"
    "int (length (filter (\<lambda>r. Review.appPackage r = ''com.example.app'')
       (storedReviews exampleStore))) = 3"
    by code_simp+
  from get_reviews_payload_package_overrides [OF h, of exampleStore "''com.example.app''"]
  obtain resp where
    "handleGetReviews exampleStore (Some ''com.example.app'') (Some ?f) = Inr resp"
    "reviews resp = find' exampleStore (getReviewsFilter ''com.example.app'' (Some ?f))"
    "total (pagination resp) = int (length (filter (\<lambda>r. Review.appPackage r = ''com.example.app'')
       (storedReviews exampleStore)))"
    by blast
  with h e show ?thesis by simp
qed

text \<open>
  C10. The resource \<^verbatim>\<open>googleplay://reviews/P/R\<close>: when some stored review has the id
  \<open>R\<close>, the handler returns a stored review with that id, of whatever app, under the URI
  made of \<open>P\<close> and \<open>R\<close>; it fails (invalid request) exactly when no stored review has the
  id \<open>R\<close>; and what it returns besides the URI is the same for every \<open>P\<close>.
\<close>

theorem specific_review_ignores_package:
  "(reviewId \<in> id' ` set (storedReviews s) \<longrightarrow>
      (\<exists>r \<in> set (storedReviews s). id' r = reviewId \<and>
         handleSpecificReviewResource s p reviewId =
           Inr \<lparr>uri = ''googleplay://reviews/'' @ p @ ''/'' @ reviewId,
                mimeType = ''application/json'', body = r\<rparr>)) \<and>
   (reviewId \<notin> id' ` set (storedReviews s) \<longrightarrow>
      handleSpecificReviewResource s p reviewId = Inl (McpError InvalidRequest)) \<and>
   map_sum (\<lambda>e. e) body (handleSpecificReviewResource s p reviewId) =
     map_sum (\<lambda>e. e) body (handleSpecificReviewResource s p' reviewId)"
proof (intro conjI impI)
  assume "reviewId \<in> id' ` set (storedReviews s)"
  then obtain r where
    "findById s reviewId = Some r" "r \<in> set (storedReviews s)" "id' r = reviewId"
    using findById_exists by blast
  then show "\<exists>r \<in> set (storedReviews s). id' r = reviewId \<and>
         handleSpecificReviewResource s p reviewId =
           Inr \<lparr>uri = ''googleplay://reviews/'' @ p @ ''/'' @ reviewId,
                mimeType = ''application/json'', body = r\<rparr>"
    by (auto simp: handleSpecificReviewResource_def)
next
  assume "reviewId \<notin> id' ` set (storedReviews s)"
  then have "findById s reviewId = None"
    by (auto simp: findById_def find_None_iff)
  then show "handleSpecificReviewResource s p reviewId = Inl (McpError InvalidRequest)"
    by (simp add: handleSpecificReviewResource_def)
next
  show "map_sum (\<lambda>e. e) body (handleSpecificReviewResource s p reviewId) =
     map_sum (\<lambda>e. e) body (handleSpecificReviewResource s p' reviewId)"
    by (simp add: handleSpecificReviewResource_def split: option.splits)
qed

text \<open>Read under \<^verbatim>\<open>com.example.app\<close>, the id \<^verbatim>\<open>r4\<close> gives the review of
  \<^verbatim>\<open>org.other.app\<close>; an id that no review has gives the error.\<close>

theorem specific_review_ignores_package_witness:
  "''r4'' \<in> id' ` set (storedReviews exampleStore) \<and>
   ''zz'' \<notin> id' ` set (storedReviews exampleStore) \<and>
   handleSpecificReviewResource exampleStore ''com.example.app'' ''r4'' =
     Inr \<lparr>uri = ''googleplay://reviews/com.example.app/r4'', mimeType = ''application/json'',
          body = exampleReview ''r4'' ''org.other.app'' 2 ''Too slow''\<rparr> \<and>
   handleSpecificReviewResource exampleStore ''com.example.app'' ''zz'' =
     Inl (McpError InvalidRequest)"
proof -
  have h: "''r4'' \<in> id' ` set (storedReviews exampleStore)"
    and n: "''zz'' \<notin> id' ` set (storedReviews exampleStore)"
    by (simp_all add: exampleStore_def exampleReview_def)
  from h specific_review_ignores_package [of "''r4''" exampleStore "''com.example.app''"]
  have "\<exists>r\<in>set (storedReviews exampleStore). id' r = ''r4'' \<and>
      handleSpecificReviewResource exampleStore ''com.example.app'' ''r4'' =
        Inr \<lparr>uri = ''googleplay://reviews/'' @ ''com.example.app'' @ ''/'' @ ''r4'',
             mimeType = ''application/json'', body = r\<rparr>"
    by blast
  then have a: "handleSpecificReviewResource exampleStore ''com.example.app'' ''r4'' =
     Inr \<lparr>uri = ''googleplay://reviews/com.example.app/r4'', mimeType = ''application/json'',
          body = exampleReview ''r4'' ''org.other.app'' 2 ''Too slow''\<rparr>"
    by (auto simp: exampleStore_def exampleReview_def)
  from n specific_review_ignores_package [of "''zz''" exampleStore "''com.example.app''"]
  have b: "handleSpecificReviewResource exampleStore ''com.example.app'' ''zz'' =
     Inl (McpError InvalidRequest)"
    by blast
  from h n a b show ?thesis by simp
qed

end
